theory Spec2Isabelle
  imports Main "HOL-Library.Word"
begin

unbundle bit_operations_syntax

section \<open>Values, errors and events\<close>

type_synonym byte = "8 word"
type_synonym bytes = "byte list"

text \<open>
  A value of format \<open>f\<close> on the wire is an IEEE-754 binary32 number; it is kept as its
  bit pattern. A Python float is a binary64 number, kept as its bit pattern as well.
  What \<open>unpack\<close> gives is an int (for \<open>B\<close> and \<open>H\<close>) or a Python float that is
  exactly the binary32 value read (for \<open>f\<close>).
\<close>

type_synonym float32 = "32 word"
type_synonym float64 = "64 word"

datatype pyval = PyInt int | PyFloat float64

datatype py_error =
    KeyError string
  | StructError
  | OverflowError
  | AttributeError
  | TypeError
  | IndexError

datatype PacemakerState = NOT_CONNECTED | CONNECTED | REGISTERED

datatype unpacked = UInt int | UFloat float32

datatype event =
    EcgDataUpdate "unpacked list" "unpacked list"
  | ParamsReceived bool string
  | ConnectStatusChange PacemakerState "string option"
  | ShowAlert string

text \<open>
  A string that may be None: how an f-string prints it, and its truth value in a
  condition.
\<close>

definition py_str :: "string option \<Rightarrow> string" where
  "py_str x = (case x of None \<Rightarrow> ''None'' | Some t \<Rightarrow> t)"

definition truthy :: "string option \<Rightarrow> bool" where
  "truthy x = (case x of None \<Rightarrow> False | Some t \<Rightarrow> t \<noteq> [])"

section \<open>The struct module, as far as handlers.py uses it\<close>

text \<open>
  The format strings of handlers.py start with \<open>=\<close> (native byte order, standard
  sizes, no alignment) and use the codes \<open>B\<close>, \<open>H\<close>, \<open>f\<close> and \<open>x\<close>, each with an
  optional repeat count. The byte order of the machine and the C conversion of a Python
  number to binary32 are not part of the repository; they are the two fields of
  \<open>platform\<close>. Where the number does not fit, the conversion gives the exception that
  struct raises: OverflowError for a float, struct.error for an int.
\<close>

datatype fmt_code = Fmt_B | Fmt_H | Fmt_f | Fmt_x

record platform =
  big_endian :: bool
  to_float32 :: "pyval \<Rightarrow> py_error + float32"

definition code_of :: "char \<Rightarrow> fmt_code option" where
  "code_of c =
     (if c = CHR ''B'' then Some Fmt_B
      else if c = CHR ''H'' then Some Fmt_H
      else if c = CHR ''f'' then Some Fmt_f
      else if c = CHR ''x'' then Some Fmt_x
      else None)"

definition digit_of :: "char \<Rightarrow> nat option" where
  "digit_of c =
     (let n = (of_char c :: nat) in if 48 \<le> n \<and> n \<le> 57 then Some (n - 48) else None)"

fun parse_items :: "nat option \<Rightarrow> string \<Rightarrow> fmt_code list option" where
  "parse_items cnt [] = (case cnt of None \<Rightarrow> Some [] | Some k \<Rightarrow> None)"
| "parse_items cnt (c # cs) =
     (case digit_of c of
        Some d \<Rightarrow> parse_items (Some (10 * (case cnt of None \<Rightarrow> 0 | Some k \<Rightarrow> k) + d)) cs
      | None \<Rightarrow>
          (case code_of c of
             None \<Rightarrow> None
           | Some f \<Rightarrow>
               (case parse_items None cs of
                  None \<Rightarrow> None
                | Some r \<Rightarrow> Some (replicate (case cnt of None \<Rightarrow> 1 | Some k \<Rightarrow> k) f @ r))))"

definition parse_fmt :: "string \<Rightarrow> fmt_code list option" where
  "parse_fmt fmt =
     (case fmt of
        [] \<Rightarrow> Some []
      | c # cs \<Rightarrow> if c = CHR ''='' then parse_items None cs else None)"

fun item_size :: "fmt_code \<Rightarrow> nat" where
  "item_size Fmt_B = 1"
| "item_size Fmt_H = 2"
| "item_size Fmt_f = 4"
| "item_size Fmt_x = 1"

definition calcsize :: "string \<Rightarrow> py_error + nat" where
  "calcsize fmt =
     (case parse_fmt fmt of
        None \<Rightarrow> Inl StructError
      | Some items \<Rightarrow> Inr (sum_list (map item_size items)))"

definition native :: "platform \<Rightarrow> bytes \<Rightarrow> bytes" where
  "native pf bs = (if big_endian pf then rev bs else bs)"

definition u16_bytes :: "platform \<Rightarrow> int \<Rightarrow> bytes" where
  "u16_bytes pf i = native pf [word_of_int i, word_of_int (i div 256)]"

definition f32_bytes :: "platform \<Rightarrow> float32 \<Rightarrow> bytes" where
  "f32_bytes pf w =
     native pf [ucast w, ucast (drop_bit 8 w), ucast (drop_bit 16 w), ucast (drop_bit 24 w)]"

definition f32_of_bytes :: "platform \<Rightarrow> bytes \<Rightarrow> float32" where
  "f32_of_bytes pf bs =
     (case native pf bs of
        [b0, b1, b2, b3] \<Rightarrow>
          ucast b0 OR push_bit 8 (ucast b1) OR push_bit 16 (ucast b2) OR push_bit 24 (ucast b3)
      | _ \<Rightarrow> 0)"

text \<open>
  One value under one code: \<open>B\<close> and \<open>H\<close> take an int in range (a float, or an int out
  of range, is struct.error); \<open>f\<close> takes any number that the conversion to binary32
  takes, and raises what the conversion raises.
\<close>

fun pack_item :: "platform \<Rightarrow> fmt_code \<Rightarrow> pyval \<Rightarrow> py_error + bytes" where
  "pack_item pf Fmt_B (PyInt i) =
     (if 0 \<le> i \<and> i \<le> 255 then Inr [word_of_int i] else Inl StructError)"
| "pack_item pf Fmt_B (PyFloat d) = Inl StructError"
| "pack_item pf Fmt_H (PyInt i) =
     (if 0 \<le> i \<and> i \<le> 65535 then Inr (u16_bytes pf i) else Inl StructError)"
| "pack_item pf Fmt_H (PyFloat d) = Inl StructError"
| "pack_item pf Fmt_f v =
     (case to_float32 pf v of Inl e \<Rightarrow> Inl e | Inr w \<Rightarrow> Inr (f32_bytes pf w))"
| "pack_item pf Fmt_x v = Inr [0]"

text \<open>
  \<open>pack\<close> walks the items of the format; a pad byte takes no argument; too few or too
  many arguments are struct.error.
\<close>

fun pack_items :: "platform \<Rightarrow> fmt_code list \<Rightarrow> pyval list \<Rightarrow> py_error + bytes" where
  "pack_items pf [] [] = Inr []"
| "pack_items pf [] (v # vs) = Inl StructError"
| "pack_items pf (Fmt_x # cs) vs =
     (case pack_items pf cs vs of Inl e \<Rightarrow> Inl e | Inr r \<Rightarrow> Inr (0 # r))"
| "pack_items pf (c # cs) [] = Inl StructError"
| "pack_items pf (c # cs) (v # vs) =
     (case pack_item pf c v of
        Inl e \<Rightarrow> Inl e
      | Inr b \<Rightarrow> (case pack_items pf cs vs of Inl e \<Rightarrow> Inl e | Inr r \<Rightarrow> Inr (b @ r)))"

definition pack :: "platform \<Rightarrow> string \<Rightarrow> pyval list \<Rightarrow> py_error + bytes" where
  "pack pf fmt vs =
     (case parse_fmt fmt of None \<Rightarrow> Inl StructError | Some items \<Rightarrow> pack_items pf items vs)"

text \<open>
  \<open>unpack_from\<close> reads the items of the format at an offset of the buffer; a buffer
  with fewer bytes than the format needs from there is struct.error. A \<open>B\<close> or \<open>H\<close>
  gives an int, an \<open>f\<close> a Python float that is exactly the binary32 value read.
\<close>

definition u16_of_bytes :: "platform \<Rightarrow> bytes \<Rightarrow> int" where
  "u16_of_bytes pf bs =
     (case native pf bs of [b0, b1] \<Rightarrow> uint b0 + 256 * uint b1 | _ \<Rightarrow> 0)"

fun unpack_items :: "platform \<Rightarrow> fmt_code list \<Rightarrow> bytes \<Rightarrow> unpacked list" where
  "unpack_items pf [] b = []"
| "unpack_items pf (Fmt_B # cs) b = map (\<lambda>x. UInt (uint x)) (take 1 b) @ unpack_items pf cs (drop 1 b)"
| "unpack_items pf (Fmt_H # cs) b = UInt (u16_of_bytes pf (take 2 b)) # unpack_items pf cs (drop 2 b)"
| "unpack_items pf (Fmt_f # cs) b = UFloat (f32_of_bytes pf (take 4 b)) # unpack_items pf cs (drop 4 b)"
| "unpack_items pf (Fmt_x # cs) b = unpack_items pf cs (drop 1 b)"

definition unpack_from :: "platform \<Rightarrow> string \<Rightarrow> bytes \<Rightarrow> nat \<Rightarrow> py_error + unpacked list" where
  "unpack_from pf fmt buffer offset =
     (case parse_fmt fmt of
        None \<Rightarrow> Inl StructError
      | Some items \<Rightarrow>
          if length buffer < offset + sum_list (map item_size items) then Inl StructError
          else Inr (unpack_items pf items (drop offset buffer)))"

section \<open>The serial handler\<close>

subsection \<open>Class constants\<close>

fun str_nat :: "nat \<Rightarrow> string" where
  "str_nat n =
     (if n < 10 then [char_of (48 + n)] else str_nat (n div 10) @ [char_of (48 + n mod 10)])"

declare str_nat.simps [simp del]

definition num_floats :: nat where
  "num_floats = 20"

definition PARAMS_FMT_STR :: string where
  "PARAMS_FMT_STR = ''=3BfB2fBf4H5B''"

definition ECG_FMT_STR :: string where
  "ECG_FMT_STR = ''='' @ str_nat num_floats @ ''f''"

definition ECG_DATA_STR :: string where
  "ECG_DATA_STR = ''='' @ str_nat (num_floats div 2) @ ''f''"

text \<open>
  The three sizes are computed by \<open>calcsize\<close> when the class is created; the formats are
  well formed (lemmas \<open>calcsize_PARAMS\<close>, \<open>calcsize_ECG\<close>, \<open>calcsize_ECG_DATA\<close> below), so
  the second branch is never taken.
\<close>

definition size_of_fmt :: "string \<Rightarrow> nat" where
  "size_of_fmt fmt = (case calcsize fmt of Inr n \<Rightarrow> n | Inl e \<Rightarrow> 0)"

definition PARAMS_NUM_BYTES :: nat where
  "PARAMS_NUM_BYTES = size_of_fmt PARAMS_FMT_STR"

definition ECG_NUM_BYTES :: nat where
  "ECG_NUM_BYTES = size_of_fmt ECG_FMT_STR"

definition ECG_DATA :: nat where
  "ECG_DATA = size_of_fmt ECG_DATA_STR"

definition REQUEST_ECG :: "platform \<Rightarrow> bytes" where
  "REQUEST_ECG pf = (case pack pf ''=B33x'' [PyInt 0x55] of Inr b \<Rightarrow> b | Inl e \<Rightarrow> [])"

definition PARAMS_ORDER :: "string list" where
  "PARAMS_ORDER =
     [''Pacing Mode'', ''Lower Rate Limit'', ''Upper Rate Limit'', ''Atrial Amplitude'',
      ''Atrial Pulse Width'', ''Atrial Sensitivity'', ''Ventricular Amplitude'',
      ''Ventricular Pulse Width'', ''Ventricular Sensitivity'', ''VRP'', ''ARP'', ''PVARP'',
      ''Fixed AV Delay'', ''Maximum Sensor Rate'', ''Reaction Time'', ''Response Factor'',
      ''Recovery Time'', ''Activity Threshold'']"

subsection \<open>State\<close>

text \<open>
  The fields of \<open>_SerialHandler\<close>, and of its pyserial connection \<open>_conn\<close> what the
  handler uses: \<open>is_open\<close>, \<open>port\<close>, the byte strings that the coming calls of
  \<open>read\<close> return one after the other (with \<open>timeout=0\<close> a call returns at once what
  has arrived; when the list is used up the device is silent and every call returns the
  empty byte string), and the byte strings given to \<open>write\<close> so far. Failures of the
  operating system's serial port are not modelled; printing is left out.
\<close>

record serial_handler =
  sh_running :: bool
  sh_buf :: bytes
  sh_is_open :: bool
  sh_port :: "string option"
  sh_incoming :: "bytes list"
  sh_written :: "bytes list"
  sh_num_bytes_to_read :: nat
  sh_sent_data :: bytes
  sh_send_params :: bool

definition serial_handler_init :: serial_handler where
  "serial_handler_init =
     \<lparr>sh_running = False, sh_buf = [], sh_is_open = False, sh_port = None,
      sh_incoming = [], sh_written = [], sh_num_bytes_to_read = ECG_NUM_BYTES + 1,
      sh_sent_data = [], sh_send_params = False\<rparr>"

subsection \<open>Reading one frame\<close>

text \<open>
  What a call of \<open>_readline\<close> comes to: a line; the value None (the loop condition is
  false); or no return at all, the loop polling a silent device for as long as the handler
  runs and the port is open.
\<close>

datatype reading = Line bytes | ReturnsNone | Polling

fun read_loop :: "nat \<Rightarrow> bytes \<Rightarrow> bytes list \<Rightarrow> reading \<times> bytes \<times> bytes list" where
  "read_loop n b [] =
     (if length b \<ge> n then (Line (take n b), drop n b @ [], []) else (Polling, b, []))"
| "read_loop n b (data # rest) =
     (if length b \<ge> n then (Line (take n b), drop n b @ data, rest)
      else read_loop n (b @ data) rest)"

definition readline :: "serial_handler \<Rightarrow> reading \<times> serial_handler" where
  "readline s =
     (let n = sh_num_bytes_to_read s in
      if length (sh_buf s) \<ge> n then (Line (take n (sh_buf s)), s\<lparr>sh_buf := drop n (sh_buf s)\<rparr>)
      else if sh_running s \<and> sh_is_open s then
        (case read_loop n (sh_buf s) (sh_incoming s) of
           (r, b, rest) \<Rightarrow> (r, s\<lparr>sh_buf := b, sh_incoming := rest\<rparr>))
      else (ReturnsNone, s))"

subsection \<open>Verification, control operations\<close>

definition msg_not_same :: string where
  "msg_not_same =
     ''The received parameters were not the same as the sent ones!'' @ [char_of (10::nat)] @
     ''Please restart the DCM/Pacemaker or try a different Pacemaker!''"

definition msg_success :: string where
  "msg_success = ''Successfully sent parameters!''"

definition verify_params :: "serial_handler \<Rightarrow> bytes \<Rightarrow> event" where
  "verify_params s received_params =
     (if sh_sent_data s \<noteq> take PARAMS_NUM_BYTES received_params
      then ParamsReceived False msg_not_same
      else ParamsReceived True msg_success)"

definition try_to_open_port :: "bool \<Rightarrow> serial_handler \<Rightarrow> serial_handler" where
  "try_to_open_port opens s = (if opens then s\<lparr>sh_is_open := True\<rparr> else s)"

definition stop_serial :: "serial_handler \<Rightarrow> serial_handler" where
  "stop_serial s = s\<lparr>sh_running := False, sh_is_open := False\<rparr>"

definition start_serial_comm :: "serial_handler \<Rightarrow> string option \<Rightarrow> serial_handler" where
  "start_serial_comm s port = s\<lparr>sh_buf := [], sh_port := port\<rparr>"

definition stop_serial_comm :: "serial_handler \<Rightarrow> serial_handler" where
  "stop_serial_comm s = s\<lparr>sh_is_open := False, sh_port := None\<rparr>"

fun lookup_all :: "(string \<rightharpoonup> pyval) \<Rightarrow> string list \<Rightarrow> py_error + pyval list" where
  "lookup_all params [] = Inr []"
| "lookup_all params (key # keys) =
     (case params key of
        None \<Rightarrow> Inl (KeyError key)
      | Some v \<Rightarrow> (case lookup_all params keys of Inl e \<Rightarrow> Inl e | Inr vs \<Rightarrow> Inr (v # vs)))"

text \<open>The right-hand side of the assignment to \<open>_sent_data\<close>.\<close>

definition pack_params :: "platform \<Rightarrow> (string \<rightharpoonup> pyval) \<Rightarrow> py_error + bytes" where
  "pack_params pf params_to_send =
     (case lookup_all params_to_send PARAMS_ORDER of
        Inl e \<Rightarrow> Inl e
      | Inr vs \<Rightarrow> pack pf PARAMS_FMT_STR vs)"

definition send_params_to_pacemaker ::
  "platform \<Rightarrow> serial_handler \<Rightarrow> (string \<rightharpoonup> pyval) \<Rightarrow> py_error + serial_handler" where
  "send_params_to_pacemaker pf s params_to_send =
     (case pack_params pf params_to_send of
        Inl e \<Rightarrow> Inl e
      | Inr b \<Rightarrow> Inr (s\<lparr>sh_sent_data := b, sh_send_params := True\<rparr>))"

subsection \<open>One iteration of the loop of run\<close>

text \<open>The block under the lock: the pending parameters, or the request for ECG data.\<close>

definition run_write :: "platform \<Rightarrow> serial_handler \<Rightarrow> serial_handler" where
  "run_write pf s =
     (if sh_send_params s
      then s\<lparr>sh_send_params := False, sh_written := sh_written s @ [sh_sent_data s]\<rparr>
      else s\<lparr>sh_written := sh_written s @ [REQUEST_ECG pf]\<rparr>)"

text \<open>
  From \<open>control_byte = line[0]\<close> to the end of the \<open>try\<close> block: the events emitted, or
  the exception raised.
\<close>

definition run_dispatch :: "platform \<Rightarrow> serial_handler \<Rightarrow> bytes \<Rightarrow> py_error + event list" where
  "run_dispatch pf s line =
     (case line of
        [] \<Rightarrow> Inl IndexError
      | control_byte # rest \<Rightarrow>
          if control_byte = 0 then
            (case unpack_from pf ECG_DATA_STR rest 0 of
               Inl e \<Rightarrow> Inl e
             | Inr a_data \<Rightarrow>
                 (case unpack_from pf ECG_DATA_STR rest ECG_DATA of
                    Inl e \<Rightarrow> Inl e
                  | Inr v_data \<Rightarrow> Inr [EcgDataUpdate a_data v_data]))
          else if control_byte = 1 then Inr [verify_params s rest]
          else Inr [])"

text \<open>
  One pass through the body of \<open>while self._running\<close>: the state after it and the events
  emitted, or \<open>None\<close> when \<open>_readline\<close> does not return. An exception in the \<open>try\<close>
  block (also the TypeError of \<open>line[0]\<close> when \<open>_readline\<close> returned None) is printed and
  dropped. \<open>opens\<close> says whether the operating system lets the port be opened.
\<close>

definition run_iteration ::
  "platform \<Rightarrow> bool \<Rightarrow> serial_handler \<Rightarrow> (serial_handler \<times> event list) option" where
  "run_iteration pf opens s =
     (if sh_is_open s then
        (case readline (run_write pf s) of
           (Polling, s') \<Rightarrow> None
         | (ReturnsNone, s') \<Rightarrow> Some (s', [])
         | (Line line, s') \<Rightarrow>
             (case run_dispatch pf s' line of
                Inl e \<Rightarrow> Some (s', [])
              | Inr evs \<Rightarrow> Some (s', evs)))
      else if truthy (sh_port s) then Some (try_to_open_port opens s, [])
      else Some (s, []))"

section \<open>The connection handler\<close>

text \<open>
  What the handler reads of a pyserial \<open>ListPortInfo\<close>: the port path \<open>device\<close>, the
  serial number and the USB vendor and product id, each of which may be None. pyserial
  compares two of them by their port path, and that is what \<open>in\<close> and \<open>not in\<close> use.
\<close>

record ListPortInfo =
  device :: "string option"
  serial_number :: "string option"
  vid :: "nat option"
  pid :: "nat option"

text \<open>
  The call \<open>ListPortInfo()\<close>, with no argument. Up to pyserial 3.4 the device defaults
  to None and the call gives a descriptor with None everywhere; from pyserial 3.5 the
  device is a required argument and the call raises TypeError. The repository does not
  say which pyserial it runs with.
\<close>

datatype pyserial = Pyserial_3_4 | Pyserial_3_5

definition empty_port :: ListPortInfo where
  "empty_port = \<lparr>device = None, serial_number = None, vid = None, pid = None\<rparr>"

definition ListPortInfo_new :: "pyserial \<Rightarrow> py_error + ListPortInfo" where
  "ListPortInfo_new v =
     (case v of Pyserial_3_4 \<Rightarrow> Inr empty_port | Pyserial_3_5 \<Rightarrow> Inl TypeError)"

definition port_eq :: "ListPortInfo \<Rightarrow> ListPortInfo \<Rightarrow> bool" where
  "port_eq a b = (device a = device b)"

definition py_in :: "ListPortInfo \<Rightarrow> ListPortInfo list \<Rightarrow> bool" where
  "py_in dev devs = list_ex (port_eq dev) devs"

text \<open>
  The attribute \<open>_device\<close> holds the list that \<open>comports()\<close> returned, as \<open>__init__\<close>
  leaves it, or one \<open>ListPortInfo\<close>, as \<open>_update_state\<close> and \<open>_handle_removed_device\<close>
  assign it. Reading \<open>serial_number\<close> or \<open>device\<close> of a list is AttributeError.
\<close>

datatype device_slot = PortList "ListPortInfo list" | Port ListPortInfo

text \<open>
  \<open>_first_serial_num\<close> starts as the empty string and later takes a port's serial number,
  which may be None.
\<close>

record connection_handler =
  ch_running :: bool
  ch_device :: device_slot
  ch_devices :: "ListPortInfo list"
  ch_old_devices :: "ListPortInfo list"
  ch_first_serial_num :: "string option"
  ch_current_state :: PacemakerState
  ch_prev_state :: PacemakerState
  ch_wanted_state :: PacemakerState
  serial :: serial_handler

definition connection_handler_init :: "ListPortInfo list \<Rightarrow> connection_handler" where
  "connection_handler_init comports =
     \<lparr>ch_running = False, ch_device = PortList comports, ch_devices = [], ch_old_devices = [],
      ch_first_serial_num = Some [], ch_current_state = NOT_CONNECTED,
      ch_prev_state = NOT_CONNECTED, ch_wanted_state = NOT_CONNECTED,
      serial = serial_handler_init\<rparr>"

definition filter_devices :: "ListPortInfo list \<Rightarrow> ListPortInfo list" where
  "filter_devices data = filter (\<lambda>dev. vid dev = Some 0x1366 \<and> pid dev = Some 0x1015) data"

text \<open>
  \<open>register_device\<close> returns the new state and the signals emitted (an alert box
  counts as a signal), or the exception that ends it. \<open>_update_state\<close> and its blocks
  return the same, and with an exception the state and the signals at the point where it
  is raised: they have changed the state and emitted signals by then.
\<close>

type_synonym outcome = "py_error + connection_handler \<times> event list"

type_synonym tick_outcome =
  "py_error \<times> connection_handler \<times> event list + connection_handler \<times> event list"

definition handle_removed_device ::
  "pyserial \<Rightarrow> connection_handler \<Rightarrow> ListPortInfo list \<Rightarrow> tick_outcome" where
  "handle_removed_device v h removed =
     (case removed of
        [] \<Rightarrow> Inr (h, [])
      | r # rs \<Rightarrow>
          (case ch_device h of
             PortList l \<Rightarrow> Inl (AttributeError, h, [])
           | Port d \<Rightarrow>
               if list_ex (\<lambda>dev. serial_number d = serial_number dev) removed
               then (case ListPortInfo_new v of
                       Inl e \<Rightarrow>
                         Inl (e, h\<lparr>ch_wanted_state := NOT_CONNECTED\<rparr>,
                              [ConnectStatusChange NOT_CONNECTED (serial_number r)])
                     | Inr p \<Rightarrow>
                         Inr (h\<lparr>ch_wanted_state := NOT_CONNECTED, ch_device := Port p,
                                serial := stop_serial_comm (serial h)\<rparr>,
                              [ConnectStatusChange NOT_CONNECTED (serial_number r)]))
               else Inr (h, [])))"

text \<open>The branch of \<open>_update_state\<close> for NOT_CONNECTED.\<close>

definition not_connected_branch ::
  "connection_handler \<Rightarrow> ListPortInfo list \<Rightarrow> tick_outcome" where
  "not_connected_branch h added =
     (case added of
        [] \<Rightarrow> Inr (h, [])
      | a # as \<Rightarrow>
          if ch_first_serial_num h = Some []
          then Inr (h\<lparr>ch_device := Port a, ch_first_serial_num := serial_number a,
                      ch_wanted_state := REGISTERED\<rparr>, [])
          else if ch_first_serial_num h = serial_number a
          then Inr (h\<lparr>ch_device := Port a, ch_wanted_state := REGISTERED\<rparr>, [])
          else Inr (h\<lparr>ch_device := Port a, ch_wanted_state := CONNECTED\<rparr>, []))"

text \<open>The branch for CONNECTED.\<close>

definition connected_branch ::
  "pyserial \<Rightarrow> connection_handler \<Rightarrow> ListPortInfo list \<Rightarrow> tick_outcome" where
  "connected_branch v h removed =
     (if ch_prev_state h = NOT_CONNECTED then
        (case ch_device h of
           PortList l \<Rightarrow> Inl (AttributeError, h, [])
         | Port d \<Rightarrow>
             (case handle_removed_device v h removed of
                Inl (e, h', evs) \<Rightarrow>
                  Inl (e, h', ConnectStatusChange CONNECTED
                                (Some (py_str (serial_number d) @ '', press New Patient to register''))
                              # evs)
              | Inr (h', evs) \<Rightarrow>
                  Inr (h', ConnectStatusChange CONNECTED
                             (Some (py_str (serial_number d) @ '', press New Patient to register''))
                           # evs)))
      else handle_removed_device v h removed)"

text \<open>The branch for REGISTERED.\<close>

definition registered_branch ::
  "pyserial \<Rightarrow> connection_handler \<Rightarrow> ListPortInfo list \<Rightarrow> tick_outcome" where
  "registered_branch v h removed =
     (if ch_prev_state h = NOT_CONNECTED \<or> ch_prev_state h = CONNECTED then
        (case ch_device h of
           PortList l \<Rightarrow> Inl (AttributeError, h, [])
         | Port d \<Rightarrow>
             (case handle_removed_device v
                     (h\<lparr>serial := start_serial_comm (serial h) (device d)\<rparr>) removed of
                Inl (e, h', evs) \<Rightarrow>
                  Inl (e, h', ConnectStatusChange REGISTERED (serial_number d) # evs)
              | Inr (h', evs) \<Rightarrow>
                  Inr (h', ConnectStatusChange REGISTERED (serial_number d) # evs)))
      else handle_removed_device v h removed)"

text \<open>
  One call of \<open>_update_state\<close>; \<open>comports\<close> is what \<open>list_ports.comports()\<close> returns in
  it. An exception leaves the method, and the thread's loop, before the last two
  assignments.
\<close>

definition update_state ::
  "pyserial \<Rightarrow> connection_handler \<Rightarrow> ListPortInfo list \<Rightarrow> tick_outcome" where
  "update_state v h comports =
     (let devs = filter_devices comports;
          added = filter (\<lambda>dev. \<not> py_in dev (ch_old_devices h)) devs;
          removed = filter (\<lambda>dev. \<not> py_in dev devs) (ch_old_devices h);
          h1 = h\<lparr>ch_devices := devs\<rparr>;
          h2 = (if ch_current_state h1 \<noteq> ch_wanted_state h1
                then h1\<lparr>ch_current_state := ch_wanted_state h1\<rparr> else h1)
      in case (case ch_current_state h2 of
                 NOT_CONNECTED \<Rightarrow> not_connected_branch h2 added
               | CONNECTED \<Rightarrow> connected_branch v h2 removed
               | REGISTERED \<Rightarrow> registered_branch v h2 removed) of
           Inl x \<Rightarrow> Inl x
         | Inr (h3, evs) \<Rightarrow>
             Inr (h3\<lparr>ch_old_devices := ch_devices h3, ch_prev_state := ch_current_state h3\<rparr>, evs))"

definition register_device :: "connection_handler \<Rightarrow> outcome" where
  "register_device h =
     (if ch_current_state h = CONNECTED then Inr (h\<lparr>ch_wanted_state := REGISTERED\<rparr>, [])
      else
        (case ch_device h of
           PortList l \<Rightarrow> Inl AttributeError
         | Port d \<Rightarrow>
             if truthy (serial_number d)
             then Inr (h, [ShowAlert ''Already registered this pacemaker!''])
             else if length (ch_devices h) > 0
             then Inr (h, [ShowAlert ''Please unplug and replug the pacemaker you want to connect to!''])
             else Inr (h, [ShowAlert ''Please plug in a pacemaker!''])))"

definition send_data_to_pacemaker ::
  "platform \<Rightarrow> connection_handler \<Rightarrow> (string \<rightharpoonup> pyval) \<Rightarrow> py_error + connection_handler" where
  "send_data_to_pacemaker pf h params =
     (case send_params_to_pacemaker pf (serial h) params of
        Inl e \<Rightarrow> Inl e
      | Inr s \<Rightarrow> Inr (h\<lparr>serial := s\<rparr>))"

definition stop_connection :: "connection_handler \<Rightarrow> connection_handler" where
  "stop_connection h = h\<lparr>ch_running := False, serial := stop_serial (serial h)\<rparr>"

section \<open>Notions used in the statements\<close>

text \<open>
  The field list as the specification declares it, each name with the code of its place
  in the format string; whether a parameter set has a field with a value its code takes;
  the bytes of that field.
\<close>

definition declared_fields :: "(string \<times> fmt_code) list" where
  "declared_fields =
     [(''Pacing Mode'', Fmt_B), (''Lower Rate Limit'', Fmt_B), (''Upper Rate Limit'', Fmt_B),
      (''Atrial Amplitude'', Fmt_f), (''Atrial Pulse Width'', Fmt_B),
      (''Atrial Sensitivity'', Fmt_f), (''Ventricular Amplitude'', Fmt_f),
      (''Ventricular Pulse Width'', Fmt_B), (''Ventricular Sensitivity'', Fmt_f),
      (''VRP'', Fmt_H), (''ARP'', Fmt_H), (''PVARP'', Fmt_H), (''Fixed AV Delay'', Fmt_H),
      (''Maximum Sensor Rate'', Fmt_B), (''Reaction Time'', Fmt_B), (''Response Factor'', Fmt_B),
      (''Recovery Time'', Fmt_B), (''Activity Threshold'', Fmt_B)]"

definition field_ok :: "platform \<Rightarrow> (string \<rightharpoonup> pyval) \<Rightarrow> string \<times> fmt_code \<Rightarrow> bool" where
  "field_ok pf params kc =
     (case params (fst kc) of
        None \<Rightarrow> False
      | Some v \<Rightarrow> (case pack_item pf (snd kc) v of Inl e \<Rightarrow> False | Inr b \<Rightarrow> True))"

definition field_bytes :: "platform \<Rightarrow> (string \<rightharpoonup> pyval) \<Rightarrow> string \<times> fmt_code \<Rightarrow> bytes" where
  "field_bytes pf params kc =
     (case params (fst kc) of
        None \<Rightarrow> []
      | Some v \<Rightarrow> (case pack_item pf (snd kc) v of Inl e \<Rightarrow> [] | Inr b \<Rightarrow> b))"

text \<open>The state and the signals of a tick, whether it returned or raised.\<close>

definition state_of :: "tick_outcome \<Rightarrow> connection_handler" where
  "state_of out = (case out of Inl (e, h, evs) \<Rightarrow> h | Inr (h, evs) \<Rightarrow> h)"


definition raised :: "tick_outcome \<Rightarrow> py_error option" where
  "raised out = (case out of Inl (e, h, evs) \<Rightarrow> Some e | Inr (h, evs) \<Rightarrow> None)"

text \<open>The bytes a handler has buffered, followed by those its reads will still return.\<close>

definition stream :: "serial_handler \<Rightarrow> bytes" where
  "stream s = sh_buf s @ concat (sh_incoming s)"

text \<open>
  \<open>k\<close> calls of \<open>_readline\<close> one after the other, as \<open>k\<close> iterations of \<open>run\<close> make
  them: the lines returned, up to the first call that returns none, and the state then.
\<close>

primrec read_frames :: "nat \<Rightarrow> serial_handler \<Rightarrow> bytes list \<times> serial_handler" where
  "read_frames 0 s = ([], s)"
| "read_frames (Suc k) s =
     (case readline s of
        (Line l, s') \<Rightarrow> (case read_frames k s' of (ls, s'') \<Rightarrow> (l # ls, s''))
      | (ReturnsNone, s') \<Rightarrow> ([], s')
      | (Polling, s') \<Rightarrow> ([], s'))"

text \<open>The twenty values of an ECG payload, as the device packs them.\<close>

definition ecg_payload :: "platform \<Rightarrow> float32 list \<Rightarrow> bytes" where
  "ecg_payload pf ws = concat (map (f32_bytes pf) ws)"

definition floats_at :: "platform \<Rightarrow> bytes \<Rightarrow> nat \<Rightarrow> nat \<Rightarrow> unpacked list" where
  "floats_at pf payload i k =
     map (\<lambda>j. UFloat (f32_of_bytes pf (take 4 (drop (4 * j) payload)))) [i..<i + k]"

section \<open>Example data\<close>

text \<open>
  A parameter set (amplitudes 3.5, sensitivities 0.75 and 2.5, as binary64), a
  little-endian machine with the binary32 conversion of just these numbers, and the
  bytes \<open>struct.pack\<close> gives for them.
\<close>

definition params0 :: "string \<rightharpoonup> pyval" where
  "params0 = map_of
     [(''Pacing Mode'', PyInt 1), (''Lower Rate Limit'', PyInt 60), (''Upper Rate Limit'', PyInt 120),
      (''Atrial Amplitude'', PyFloat 0x400C000000000000), (''Atrial Pulse Width'', PyInt 1),
      (''Atrial Sensitivity'', PyFloat 0x3FE8000000000000),
      (''Ventricular Amplitude'', PyFloat 0x400C000000000000),
      (''Ventricular Pulse Width'', PyInt 1),
      (''Ventricular Sensitivity'', PyFloat 0x4004000000000000),
      (''VRP'', PyInt 320), (''ARP'', PyInt 250), (''PVARP'', PyInt 250),
      (''Fixed AV Delay'', PyInt 150), (''Maximum Sensor Rate'', PyInt 120),
      (''Reaction Time'', PyInt 30), (''Response Factor'', PyInt 8), (''Recovery Time'', PyInt 5),
      (''Activity Threshold'', PyInt 4)]"

definition pf0 :: platform where
  "pf0 = \<lparr>big_endian = False,
          to_float32 = (\<lambda>v.
            case map_of
                   [(PyFloat 0x400C000000000000, 0x40600000),
                    (PyFloat 0x3FE8000000000000, 0x3F400000),
                    (PyFloat 0x4004000000000000, 0x40200000)] v of
              None \<Rightarrow> Inl OverflowError
            | Some w \<Rightarrow> Inr w)\<rparr>"

definition bytes0 :: bytes where
  "bytes0 = [0x01, 0x3c, 0x78, 0x00, 0x00, 0x60, 0x40, 0x01, 0x00, 0x00, 0x40, 0x3f,
             0x00, 0x00, 0x60, 0x40, 0x01, 0x00, 0x00, 0x20, 0x40, 0x40, 0x01, 0xfa, 0x00,
             0xfa, 0x00, 0x96, 0x00, 0x78, 0x1e, 0x08, 0x05, 0x04]"

text \<open>A handler that runs on an open port, with a given buffer and last-sent bytes.\<close>

definition open_handler :: "bytes \<Rightarrow> bytes \<Rightarrow> serial_handler" where
  "open_handler b sent =
     serial_handler_init\<lparr>sh_running := True, sh_is_open := True, sh_port := Some ''COM3'',
                          sh_buf := b, sh_sent_data := sent\<rparr>"

text \<open>
  The binary32 values nearest to 0.1, 0.2, ..., 1.0 and to 1.1, 1.2, ..., 2.0.
\<close>

definition atrial0 :: "float32 list" where
  "atrial0 = [0x3DCCCCCD, 0x3E4CCCCD, 0x3E99999A, 0x3ECCCCCD, 0x3F000000,
              0x3F19999A, 0x3F333333, 0x3F4CCCCD, 0x3F666666, 0x3F800000]"

definition ventricular0 :: "float32 list" where
  "ventricular0 = [0x3F8CCCCD, 0x3F99999A, 0x3FA66666, 0x3FB33333, 0x3FC00000,
                   0x3FCCCCCD, 0x3FD9999A, 0x3FE66666, 0x3FF33333, 0x40000000]"

text \<open>Two pacemakers on two ports, and a handler registered with the first.\<close>

definition dev1 :: ListPortInfo where
  "dev1 = \<lparr>device = Some ''COM3'', serial_number = Some ''000621000000'',
           vid = Some 0x1366, pid = Some 0x1015\<rparr>"




definition registered1 :: connection_handler where
  "registered1 =
     (connection_handler_init [])\<lparr>ch_device := Port dev1, ch_devices := [dev1],
        ch_old_devices := [dev1], ch_first_serial_num := serial_number dev1,
        ch_current_state := REGISTERED, ch_prev_state := REGISTERED,
        ch_wanted_state := REGISTERED,
        serial := start_serial_comm serial_handler_init (device dev1)\<rparr>"

text \<open>
  The same handler after the first pacemaker was unplugged and the state followed (with
  pyserial 3.4).
\<close>

definition unplugged1 :: connection_handler where
  "unplugged1 =
     registered1\<lparr>ch_device := Port empty_port, ch_devices := [], ch_old_devices := [],
        ch_current_state := NOT_CONNECTED, ch_prev_state := NOT_CONNECTED,
        ch_wanted_state := NOT_CONNECTED,
        serial := stop_serial_comm (serial registered1)\<rparr>"

section \<open>Facts about the formats\<close>

lemma parse_PARAMS:
  "parse_fmt PARAMS_FMT_STR =
     Some [Fmt_B, Fmt_B, Fmt_B, Fmt_f, Fmt_B, Fmt_f, Fmt_f, Fmt_B, Fmt_f,
           Fmt_H, Fmt_H, Fmt_H, Fmt_H, Fmt_B, Fmt_B, Fmt_B, Fmt_B, Fmt_B]"
  by code_simp

lemma parse_ECG_DATA: "parse_fmt ECG_DATA_STR = Some (replicate 10 Fmt_f)"
  by code_simp

lemma parse_ECG: "parse_fmt ECG_FMT_STR = Some (replicate 20 Fmt_f)"
  by code_simp

lemma calcsize_PARAMS: "calcsize PARAMS_FMT_STR = Inr 34"
  by (simp add: calcsize_def parse_PARAMS)

lemma calcsize_ECG: "calcsize ECG_FMT_STR = Inr 80"
  by (simp add: calcsize_def parse_ECG sum_list_replicate)

lemma calcsize_ECG_DATA: "calcsize ECG_DATA_STR = Inr 40"
  by (simp add: calcsize_def parse_ECG_DATA sum_list_replicate)

lemma PARAMS_NUM_BYTES_eq: "PARAMS_NUM_BYTES = 34"
  by (simp add: PARAMS_NUM_BYTES_def size_of_fmt_def calcsize_PARAMS)

lemma ECG_NUM_BYTES_eq: "ECG_NUM_BYTES = 80"
  by (simp add: ECG_NUM_BYTES_def size_of_fmt_def calcsize_ECG)

lemma ECG_DATA_eq: "ECG_DATA = 40"
  by (simp add: ECG_DATA_def size_of_fmt_def calcsize_ECG_DATA)

lemma pack_items_pad: "pack_items pf (replicate k Fmt_x) [] = Inr (replicate k 0)"
  by (induction k) simp_all

lemma REQUEST_ECG_eq: "REQUEST_ECG pf = 0x55 # replicate 33 0"
  by (simp add: REQUEST_ECG_def pack_def parse_fmt_def digit_of_def code_of_def pack_items_pad)

lemma declared_fields_source:
  "map fst declared_fields = PARAMS_ORDER"
  "parse_fmt PARAMS_FMT_STR = Some (map snd declared_fields)"
  by (simp_all add: declared_fields_def PARAMS_ORDER_def parse_PARAMS)

section \<open>Encoding a parameter set\<close>

lemma pack_item_length: "pack_item pf c v = Inr b \<Longrightarrow> length b = item_size c"
  by (cases "(pf, c, v)" rule: pack_item.cases)
     (auto simp: u16_bytes_def f32_bytes_def native_def split: if_splits sum.splits)

lemma field_bytes_length:
  "field_ok pf params kc \<Longrightarrow> length (field_bytes pf params kc) = item_size (snd kc)"
  by (auto simp: field_ok_def field_bytes_def pack_item_length split: option.splits sum.splits)

lemma pack_fields:
  "list_all (field_ok pf params) fs \<Longrightarrow> Fmt_x \<notin> set (map snd fs) \<Longrightarrow>
   \<exists>vs. lookup_all params (map fst fs) = Inr vs \<and>
        pack_items pf (map snd fs) vs = Inr (concat (map (field_bytes pf params) fs))"
proof (induction fs)
  case Nil
  then show ?case by simp
next
  case (Cons kc fs)
  obtain k c where kc: "kc = (k, c)" by (cases kc)
  from Cons.prems obtain v b where v: "params k = Some v" and b: "pack_item pf c v = Inr b"
    by (auto simp: field_ok_def kc split: option.splits sum.splits)
  from Cons obtain vs where vs: "lookup_all params (map fst fs) = Inr vs"
    "pack_items pf (map snd fs) vs = Inr (concat (map (field_bytes pf params) fs))"
    by auto
  from Cons.prems have c: "c \<noteq> Fmt_x" by (auto simp: kc)
  have "pack_items pf (c # map snd fs) (v # vs) = Inr (b @ concat (map (field_bytes pf params) fs))"
    using c b vs(2) by (cases c) simp_all
  moreover have "field_bytes pf params kc = b"
    by (simp add: field_bytes_def kc v b)
  ultimately show ?case
    by (simp add: kc v vs(1))
qed

lemma concat_fields_length:
  "list_all (field_ok pf params) fs \<Longrightarrow>
   length (concat (map (field_bytes pf params) fs)) = sum_list (map (item_size \<circ> snd) fs)"
  by (induction fs) (simp_all add: field_bytes_length)

lemma fields0_ok: "list_all (field_ok pf0 params0) declared_fields"
  by (simp add: declared_fields_def field_ok_def params0_def pf0_def)

lemma pack_params0: "pack_params pf0 params0 = Inr bytes0"
  by (simp add: pack_params_def PARAMS_ORDER_def params0_def pack_def parse_PARAMS
      pf0_def u16_bytes_def f32_bytes_def native_def bytes0_def)

lemma length_bytes0: "length bytes0 = 34"
  by (simp add: bytes0_def)

text \<open>
  C1, as the specification has it, asks for 33 bytes. The example parameter set has all
  18 fields, each with a value of its type, and its encoding has 34 bytes.
\<close>

theorem pack_params_33_counterexample:
  "list_all (field_ok pf0 params0) declared_fields \<and> pack_params pf0 params0 = Inr bytes0
   \<and> length bytes0 \<noteq> 33"
  by (simp add: fields0_ok pack_params0 length_bytes0)

text \<open>
  C1, amended: for every parameter set that has the 18 fields, each with a value that its
  place in the format takes, the encoding step of \<open>send_params_to_pacemaker\<close> succeeds,
  the bytes stored as last sent are the encodings of the 18 fields one after the other in
  the declared order (Pacing Mode first, Activity Threshold last), and they are exactly
  34 bytes, the size of the format \<open>=3BfB2fBf4H5B\<close>.
\<close>

theorem pack_params_layout:
  assumes "list_all (field_ok pf params) declared_fields"
  shows "pack_params pf params = Inr (concat (map (field_bytes pf params) declared_fields))
       \<and> send_params_to_pacemaker pf s params =
           Inr (s\<lparr>sh_sent_data := concat (map (field_bytes pf params) declared_fields),
                   sh_send_params := True\<rparr>)
       \<and> length (concat (map (field_bytes pf params) declared_fields)) = 34
       \<and> PARAMS_NUM_BYTES = 34
       \<and> map fst declared_fields = PARAMS_ORDER \<and> length declared_fields = 18"
proof -
  have nx: "Fmt_x \<notin> set (map snd declared_fields)"
    by (simp add: declared_fields_def)
  from pack_fields [OF assms nx] obtain vs where
    vs: "lookup_all params (map fst declared_fields) = Inr vs"
        "pack_items pf (map snd declared_fields) vs =
           Inr (concat (map (field_bytes pf params) declared_fields))"
    by blast
  have p: "pack_params pf params = Inr (concat (map (field_bytes pf params) declared_fields))"
    using vs by (simp add: pack_params_def pack_def declared_fields_source)
  have "sum_list (map (item_size \<circ> snd) declared_fields) = 34"
    by (simp add: declared_fields_def)
  moreover have "length declared_fields = 18"
    by (simp add: declared_fields_def)
  ultimately show ?thesis
    using concat_fields_length [OF assms] p
    by (simp add: send_params_to_pacemaker_def PARAMS_NUM_BYTES_eq declared_fields_source)
qed

theorem pack_params_layout_witness:
  "list_all (field_ok pf0 params0) declared_fields
   \<and> send_params_to_pacemaker pf0 serial_handler_init params0 =
       Inr (serial_handler_init\<lparr>sh_sent_data := bytes0, sh_send_params := True\<rparr>)
   \<and> length bytes0 = 34"
proof -
  note t = pack_params_layout [OF fields0_ok, of serial_handler_init]
  from t pack_params0 have e: "concat (map (field_bytes pf0 params0) declared_fields) = bytes0"
    by simp
  from t have "send_params_to_pacemaker pf0 serial_handler_init params0 =
       Inr (serial_handler_init\<lparr>sh_sent_data := bytes0, sh_send_params := True\<rparr>)"
    unfolding e by blast
  with fields0_ok length_bytes0 show ?thesis by blast
qed

section \<open>Verifying the echoed parameters\<close>

text \<open>
  C2, as the specification has it, compares 33 bytes. With the 34 bytes of the example
  as last sent: an echo that starts with the same 34 bytes is accepted, though its first
  33 bytes are not the sent bytes; an echo that differs from them in the 34th byte only
  is refused, though the first 33 bytes of the two are the same.
\<close>

theorem verify_params_33_counterexample:
  "verify_params (open_handler [] bytes0) (bytes0 @ replicate 46 0)
     = ParamsReceived True msg_success
   \<and> take 33 (bytes0 @ replicate 46 0) \<noteq> sh_sent_data (open_handler [] bytes0)
   \<and> verify_params (open_handler [] bytes0) (bytes0[33 := 5] @ replicate 46 0)
     = ParamsReceived False msg_not_same
   \<and> take 33 (bytes0[33 := 5] @ replicate 46 0) = take 33 (sh_sent_data (open_handler [] bytes0))"
  by (simp add: verify_params_def open_handler_def PARAMS_NUM_BYTES_eq bytes0_def)

text \<open>
  C2, amended: \<open>_verify_params\<close> emits the verification event with success exactly when
  the first 34 bytes (\<open>_PARAMS_NUM_BYTES\<close>) of the echoed payload are the sent bytes; a
  byte among those 34 that differs from the sent byte at its place gives failure; and
  the loop hands the payload of a frame with control byte 1 to it.
\<close>

theorem verify_params_first_34:
  "verify_params s received =
     (if sh_sent_data s = take 34 received then ParamsReceived True msg_success
      else ParamsReceived False msg_not_same)
   \<and> (i < 34 \<and> i < length received \<and> i < length (sh_sent_data s)
        \<and> sh_sent_data s ! i \<noteq> received ! i
      \<longrightarrow> verify_params s received = ParamsReceived False msg_not_same)
   \<and> run_dispatch pf s (1 # received) = Inr [verify_params s received]"
proof -
  have "sh_sent_data s \<noteq> take 34 received"
    if "i < 34" "i < length received" "sh_sent_data s ! i \<noteq> received ! i"
    using that by (metis nth_take)
  then show ?thesis
    by (auto simp: verify_params_def PARAMS_NUM_BYTES_eq run_dispatch_def)
qed

theorem verify_params_first_34_witness:
  "(33::nat) < 34 \<and> 33 < length (bytes0[33 := 5] @ replicate 46 0)
   \<and> 33 < length (sh_sent_data (open_handler [] bytes0))
   \<and> sh_sent_data (open_handler [] bytes0) ! 33 \<noteq> (bytes0[33 := 5] @ replicate 46 0) ! 33
   \<and> verify_params (open_handler [] bytes0) (bytes0[33 := 5] @ replicate 46 0)
       = ParamsReceived False msg_not_same"
proof -
  have h: "(33::nat) < 34 \<and> 33 < length (bytes0[33 := 5] @ replicate 46 0)
     \<and> 33 < length (sh_sent_data (open_handler [] bytes0))
     \<and> sh_sent_data (open_handler [] bytes0) ! 33 \<noteq> (bytes0[33 := 5] @ replicate 46 0) ! 33"
    by (simp add: open_handler_def bytes0_def nth_append)
  with verify_params_first_34 [of "open_handler [] bytes0" "bytes0[33 := 5] @ replicate 46 0" 33 pf0]
  show ?thesis by blast
qed

section \<open>Reassembling frames\<close>

lemma read_loop_stream:
  "read_loop n b ds = (r, b', ds') \<Longrightarrow>
   (if n \<le> length (b @ concat ds)
    then r = Line (take n (b @ concat ds)) \<and> b' @ concat ds' = drop n (b @ concat ds)
    else r = Polling \<and> b' @ concat ds' = b @ concat ds)"
proof (induction ds arbitrary: b)
  case Nil
  then show ?case by (auto split: if_splits)
next
  case (Cons d ds)
  show ?case
  proof (cases "n \<le> length b")
    case True
    with Cons.prems show ?thesis by auto
  next
    case False
    with Cons.prems have "read_loop n (b @ d) ds = (r, b', ds')" by simp
    from Cons.IH [OF this] show ?thesis by simp
  qed
qed

lemma readline_touches:
  "readline s = (r, s') \<Longrightarrow> s' = s\<lparr>sh_buf := sh_buf s', sh_incoming := sh_incoming s'\<rparr>"
  by (auto simp: readline_def Let_def split: if_splits prod.splits)

lemma readline_keeps:
  "readline s = (r, s') \<Longrightarrow>
   sh_running s' = sh_running s \<and> sh_is_open s' = sh_is_open s
   \<and> sh_num_bytes_to_read s' = sh_num_bytes_to_read s \<and> sh_sent_data s' = sh_sent_data s
   \<and> sh_send_params s' = sh_send_params s \<and> sh_port s' = sh_port s
   \<and> sh_written s' = sh_written s"
  by (auto simp: readline_def Let_def split: if_splits prod.splits)

lemma readline_stream:
  assumes "sh_running s" "sh_is_open s" "readline s = (r, s')"
  shows "if sh_num_bytes_to_read s \<le> length (stream s)
         then r = Line (take (sh_num_bytes_to_read s) (stream s))
              \<and> stream s' = drop (sh_num_bytes_to_read s) (stream s)
         else r = Polling \<and> stream s' = stream s"
proof (cases "sh_num_bytes_to_read s \<le> length (sh_buf s)")
  case True
  with assms(3) show ?thesis
    by (auto simp: readline_def stream_def Let_def)
next
  case False
  obtain r0 b ds where l: "read_loop (sh_num_bytes_to_read s) (sh_buf s) (sh_incoming s) = (r0, b, ds)"
    by (cases "read_loop (sh_num_bytes_to_read s) (sh_buf s) (sh_incoming s)")
  with False assms have "r = r0" "s' = s\<lparr>sh_buf := b, sh_incoming := ds\<rparr>"
    by (auto simp: readline_def Let_def)
  with read_loop_stream [OF l] show ?thesis
    by (simp add: stream_def)
qed

lemma readline_line:
  assumes "readline s = (Line l, s')"
  shows "l @ stream s' = stream s \<and> length l = sh_num_bytes_to_read s"
proof (cases "sh_num_bytes_to_read s \<le> length (sh_buf s)")
  case True
  with assms have "l = take (sh_num_bytes_to_read s) (sh_buf s)"
    "s' = s\<lparr>sh_buf := drop (sh_num_bytes_to_read s) (sh_buf s)\<rparr>"
    by (auto simp: readline_def Let_def)
  with True show ?thesis by (simp add: stream_def)
next
  case False
  with assms have ro: "sh_running s" "sh_is_open s"
    by (auto simp: readline_def Let_def split: if_splits)
  from readline_stream [OF ro assms] show ?thesis
    by (auto split: if_splits)
qed

lemma readline_no_line:
  "readline s = (r, s') \<Longrightarrow> r \<noteq> Line l \<Longrightarrow> (\<forall>l. r \<noteq> Line l) \<Longrightarrow> stream s' = stream s"
  by (cases "sh_num_bytes_to_read s \<le> length (stream s)")
     (auto simp: readline_def Let_def stream_def split: if_splits prod.splits
           dest!: read_loop_stream)

lemma read_frames_stream:
  "concat (fst (read_frames k s)) @ stream (snd (read_frames k s)) = stream s"
proof (induction k arbitrary: s)
  case 0
  show ?case by simp
next
  case (Suc k)
  obtain r s' where r: "readline s = (r, s')" by (cases "readline s")
  show ?case
  proof (cases r)
    case (Line l)
    obtain ls s'' where rf: "read_frames k s' = (ls, s'')" by (cases "read_frames k s'")
    from Suc [of s'] rf have "concat ls @ stream s'' = stream s'" by simp
    moreover from r Line readline_line [of s l s'] have "l @ stream s' = stream s" by simp
    ultimately have "concat (l # ls) @ stream s'' = stream s" by simp
    with r Line rf show ?thesis by simp
  next
    case ReturnsNone
    with r readline_no_line [of s r s'] show ?thesis by simp
  next
    case Polling
    with r readline_no_line [of s r s'] show ?thesis by simp
  qed
qed

lemma read_frames_exact:
  assumes "sh_running s" "sh_is_open s" "0 < sh_num_bytes_to_read s"
    and "list_all (\<lambda>f. length f = sh_num_bytes_to_read s) frames"
    and "stream s = concat frames" and "length frames \<le> k"
  shows "fst (read_frames k s) = frames"
  using assms
proof (induction frames arbitrary: s k)
  case Nil
  show ?case
  proof (cases k)
    case 0
    then show ?thesis by simp
  next
    case (Suc j)
    obtain r s' where r: "readline s = (r, s')" by (cases "readline s")
    from readline_stream [OF Nil(1,2) r] Nil(3,5) have "r = Polling" by simp
    with r Suc show ?thesis by simp
  qed
next
  case (Cons f fs)
  then obtain j where k: "k = Suc j" and j: "length fs \<le> j" by (cases k) auto
  obtain r s' where r: "readline s = (r, s')" by (cases "readline s")
  from Cons.prems have f: "length f = sh_num_bytes_to_read s" by simp
  from readline_stream [OF Cons.prems(1,2) r] Cons.prems(5) f
  have l: "r = Line f" and st: "stream s' = concat fs" by simp_all
  from readline_keeps [OF r] have "sh_running s' = sh_running s" "sh_is_open s' = sh_is_open s"
    "sh_num_bytes_to_read s' = sh_num_bytes_to_read s"
    by simp_all
  with Cons.prems have "fst (read_frames j s') = fs"
    by (intro Cons.IH) (simp_all add: st j)
  with r l k show ?case by (auto split: prod.splits)
qed

text \<open>
  C3: let a handler run on an open port, with a frame size above zero, and let the bytes
  it has buffered together with those its reads will return, in whatever chunks, be
  \<open>N\<close> frames one after the other. Then \<open>N\<close> or more calls of \<open>_readline\<close> give exactly
  these \<open>N\<close> frames in order, the same as when each read returns one frame; and after
  any number of calls the frames given, the buffer and the bytes still to come make up
  the stream: no byte is dropped, none moves.
\<close>

theorem readline_reassembles:
  assumes "sh_running s" and "sh_is_open s" and "0 < sh_num_bytes_to_read s"
    and "list_all (\<lambda>f. length f = sh_num_bytes_to_read s) frames"
    and "sh_buf s @ concat (sh_incoming s) = concat frames"
    and "length frames \<le> k"
  shows "fst (read_frames k s) = frames
       \<and> fst (read_frames k (s\<lparr>sh_buf := [], sh_incoming := frames\<rparr>)) = frames
       \<and> concat (fst (read_frames j s)) @ sh_buf (snd (read_frames j s))
           @ concat (sh_incoming (snd (read_frames j s))) = concat frames"
proof -
  have a: "fst (read_frames k s) = frames"
    using assms by (intro read_frames_exact) (simp_all add: stream_def)
  have b: "fst (read_frames k (s\<lparr>sh_buf := [], sh_incoming := frames\<rparr>)) = frames"
    using assms by (intro read_frames_exact) (simp_all add: stream_def)
  from read_frames_stream [of j s] assms(5) a b show ?thesis
    by (simp add: stream_def)
qed

theorem readline_reassembles_witness:
  "fst (read_frames 4 ((open_handler [] [])
          \<lparr>sh_incoming := [replicate 40 1, replicate 41 1 @ replicate 81 2, [], replicate 81 3]\<rparr>))
     = [replicate 81 1, replicate 81 2, replicate 81 3]"
proof -
  have "replicate 40 (1::byte) @ replicate 41 1 = replicate 81 1"
    by (simp add: replicate_add [symmetric])
  then have c: "replicate 40 (1::byte) @ replicate 41 1 @ replicate 81 2 @ replicate 81 3
    = replicate 81 1 @ replicate 81 2 @ replicate 81 3"
    by simp
  show ?thesis
    using readline_reassembles [of "(open_handler [] [])
          \<lparr>sh_incoming := [replicate 40 1, replicate 41 1 @ replicate 81 2, [], replicate 81 3]\<rparr>"
        "[replicate 81 1, replicate 81 2, replicate 81 3]" 4 0] c
    by (simp add: open_handler_def serial_handler_init_def ECG_NUM_BYTES_eq)
qed

section \<open>Dispatch on the control byte\<close>

lemma f32_word_roundtrip:
  "(ucast (ucast (w :: 32 word) :: 8 word) :: 32 word)
     OR push_bit 8 (ucast (ucast (drop_bit 8 w) :: 8 word))
     OR push_bit 16 (ucast (ucast (drop_bit 16 w) :: 8 word))
     OR push_bit 24 (ucast (ucast (drop_bit 24 w) :: 8 word)) = w"
proof (rule bit_word_eqI)
  fix n assume n: "n < LENGTH(32)"
  have a: "8 \<le> n \<Longrightarrow> 8 + (n - 8) = n" and b: "16 \<le> n \<Longrightarrow> 16 + (n - 16) = n"
    and c: "24 \<le> n \<Longrightarrow> 24 + (n - 24) = n" by simp_all
  consider "n < 8" | "8 \<le> n" "n < 16" | "16 \<le> n" "n < 24" | "24 \<le> n" by linarith
  then show "bit (ucast (ucast w :: 8 word)
      OR push_bit 8 (ucast (ucast (drop_bit 8 w) :: 8 word))
      OR push_bit 16 (ucast (ucast (drop_bit 16 w) :: 8 word))
      OR push_bit 24 (ucast (ucast (drop_bit 24 w) :: 8 word)) :: 32 word) n = bit w n"
    using n by cases (auto simp: bit_simps a b c)
qed

lemma f32_roundtrip: "f32_of_bytes pf (f32_bytes pf w) = w"
  using f32_word_roundtrip [of w] by (simp add: f32_of_bytes_def f32_bytes_def native_def)

lemma f32_bytes_length: "length (f32_bytes pf w) = 4"
  by (simp add: f32_bytes_def native_def)

lemma unpack_items_floats:
  "unpack_items pf (replicate k Fmt_f) b =
     map (\<lambda>j. UFloat (f32_of_bytes pf (take 4 (drop (4 * j) b)))) [0..<k]"
proof (induction k arbitrary: b)
  case 0
  show ?case by simp
next
  case (Suc k)
  have "map (\<lambda>j. UFloat (f32_of_bytes pf (take 4 (drop (4 * j) b)))) [0..<Suc k]
      = UFloat (f32_of_bytes pf (take 4 b))
        # map (\<lambda>j. UFloat (f32_of_bytes pf (take 4 (drop (4 * j) (drop 4 b))))) [0..<k]"
    by (simp add: upt_conv_Cons map_Suc_upt [symmetric] add.commute del: upt_Suc)
  with Suc [of "drop 4 b"] show ?case by simp
qed

lemma floats_at_shift:
  "map (\<lambda>j. UFloat (f32_of_bytes pf (take 4 (drop (4 * j + 4 * i) b)))) [0..<k]
     = floats_at pf b i k"
proof -
  have "[i..<i + k] = map (\<lambda>j. j + i) [0..<k]"
    by (simp add: map_add_upt add.commute)
  then show ?thesis
    by (simp add: floats_at_def comp_def add.commute distrib_left)
qed

lemma unpack_from_ECG_DATA:
  "unpack_from pf ECG_DATA_STR b (4 * i) =
     (if length b < 4 * i + 40 then Inl StructError else Inr (floats_at pf b i 10))"
  by (simp add: unpack_from_def parse_ECG_DATA sum_list_replicate unpack_items_floats
      floats_at_shift)

lemma unpack_from_ECG:
  "unpack_from pf ECG_FMT_STR b 0 =
     (if length b < 80 then Inl StructError else Inr (floats_at pf b 0 20))"
  by (simp add: unpack_from_def parse_ECG sum_list_replicate unpack_items_floats floats_at_def)

lemma floats_at_split: "floats_at pf b 0 20 = floats_at pf b 0 10 @ floats_at pf b 10 10"
proof -
  have "[0..<20] = [0..<10] @ [10..<20]"
    using upt_add_eq_append [of 0 10 10] by simp
  then show ?thesis by (simp add: floats_at_def)
qed

lemma floats_at_length: "length (floats_at pf b i k) = k"
  by (simp add: floats_at_def)

lemma run_dispatch_ecg:
  "80 \<le> length payload \<Longrightarrow>
   run_dispatch pf s (0 # payload)
     = Inr [EcgDataUpdate (floats_at pf payload 0 10) (floats_at pf payload 10 10)]"
  using unpack_from_ECG_DATA [of pf payload 0] unpack_from_ECG_DATA [of pf payload 10]
  by (simp add: run_dispatch_def ECG_DATA_eq)

lemma floats_at_payload:
  "i + k \<le> length ws \<Longrightarrow>
   floats_at pf (ecg_payload pf ws) i k = map UFloat (take k (drop i ws))"
proof (induction ws arbitrary: i k)
  case Nil
  then show ?case by (simp add: floats_at_def)
next
  case (Cons w ws)
  show ?case
  proof (cases i)
    case 0
    show ?thesis
    proof (cases k)
      case 0
      then show ?thesis by (simp add: floats_at_def)
    next
      case (Suc k')
      have "[0..<Suc k'] = 0 # map Suc [0..<k']"
        by (simp add: upt_conv_Cons map_Suc_upt del: upt_Suc)
      then have "floats_at pf (ecg_payload pf (w # ws)) 0 (Suc k')
        = UFloat w # floats_at pf (ecg_payload pf ws) 0 k'"
        by (simp add: floats_at_def ecg_payload_def f32_bytes_length f32_roundtrip comp_def)
      with Cons.IH [of 0 k'] Cons.prems 0 Suc show ?thesis by simp
    qed
  next
    case (Suc i')
    have "[Suc i'..<Suc i' + k] = map Suc [i'..<i' + k]"
      by (simp add: map_Suc_upt)
    then have "floats_at pf (ecg_payload pf (w # ws)) (Suc i') k
      = floats_at pf (ecg_payload pf ws) i' k"
      by (simp add: floats_at_def ecg_payload_def f32_bytes_length comp_def)
    with Cons.IH [of i' k] Cons.prems Suc show ?thesis by simp
  qed
qed

lemma ecg_payload_length: "length (ecg_payload pf ws) = 4 * length ws"
  by (induction ws) (simp_all add: ecg_payload_def f32_bytes_length)

lemma run_write_keeps:
  "sh_num_bytes_to_read (run_write pf s) = sh_num_bytes_to_read s"
  "sh_sent_data (run_write pf s) = sh_sent_data s"
  "sh_buf (run_write pf s) = sh_buf s"
  "sh_incoming (run_write pf s) = sh_incoming s"
  "sh_is_open (run_write pf s) = sh_is_open s"
  "sh_running (run_write pf s) = sh_running s"
  by (simp_all add: run_write_def)

lemma run_iteration_line:
  "sh_is_open s \<Longrightarrow> readline (run_write pf s) = (Line line, s') \<Longrightarrow>
   run_iteration pf opens s =
     (case run_dispatch pf s' line of Inl e \<Rightarrow> Some (s', []) | Inr evs \<Rightarrow> Some (s', evs))"
  by (simp add: run_iteration_def)

lemma open_handler_readline:
  "length b = 81 \<Longrightarrow>
   readline (run_write pf (open_handler b sent))
     = (Line b, (run_write pf (open_handler b sent))\<lparr>sh_buf := []\<rparr>)"
  by (simp add: readline_def run_write_def open_handler_def serial_handler_init_def
      ECG_NUM_BYTES_eq)

text \<open>
  C8: in an iteration of the loop whose frame (of the size \<open>__init__\<close> sets, 81 bytes)
  has control byte 0, the payload is read as 20 packed binary32 values, and the one
  event emitted is the ECG update with the first 10 as atrial and the last 10 as
  ventricular data, 10 values each; so a payload that packs the sequences \<open>atrial\<close> and
  \<open>ventricular\<close> of 10 values each gives back exactly these, for instance the values
  0.1, ..., 1.0 and 1.1, ..., 2.0 as binary32 numbers.
\<close>

theorem run_iteration_ecg:
  assumes "sh_is_open s" and "sh_num_bytes_to_read s = ECG_NUM_BYTES + 1"
    and "readline (run_write pf s) = (Line (0 # payload), s')"
  shows "unpack_from pf ECG_FMT_STR payload 0 = Inr (floats_at pf payload 0 20)
       \<and> run_iteration pf opens s =
           Some (s', [EcgDataUpdate (take 10 (floats_at pf payload 0 20))
                                    (drop 10 (floats_at pf payload 0 20))])
       \<and> length (take 10 (floats_at pf payload 0 20)) = 10
       \<and> length (drop 10 (floats_at pf payload 0 20)) = 10
       \<and> (length atrial = 10 \<and> length ventricular = 10
            \<and> payload = ecg_payload pf (atrial @ ventricular)
          \<longrightarrow> run_iteration pf opens s =
                Some (s', [EcgDataUpdate (map UFloat atrial) (map UFloat ventricular)]))"
proof -
  from readline_line [OF assms(3)] assms(2) have len: "length payload = 80"
    by (simp add: run_write_keeps ECG_NUM_BYTES_eq)
  have t: "take 10 (floats_at pf payload 0 20) = floats_at pf payload 0 10"
    and d: "drop 10 (floats_at pf payload 0 20) = floats_at pf payload 10 10"
    by (simp_all add: floats_at_split floats_at_length)
  have u: "unpack_from pf ECG_FMT_STR payload 0 = Inr (floats_at pf payload 0 20)"
    by (simp add: unpack_from_ECG len)
  have r: "run_iteration pf opens s =
      Some (s', [EcgDataUpdate (floats_at pf payload 0 10) (floats_at pf payload 10 10)])"
    using run_iteration_line [OF assms(1,3), of opens] run_dispatch_ecg [of payload pf s'] len
    by simp
  have "floats_at pf payload 0 10 = map UFloat atrial
      \<and> floats_at pf payload 10 10 = map UFloat ventricular"
    if "length atrial = 10" "length ventricular = 10"
       "payload = ecg_payload pf (atrial @ ventricular)"
    using that floats_at_payload [of 0 10 "atrial @ ventricular" pf]
      floats_at_payload [of 10 10 "atrial @ ventricular" pf]
    by simp
  with u r show ?thesis
    by (simp add: t d floats_at_length)
qed

theorem run_iteration_ecg_witness:
  "run_iteration pf0 True (open_handler (0 # ecg_payload pf0 (atrial0 @ ventricular0)) [])
     = Some ((run_write pf0 (open_handler (0 # ecg_payload pf0 (atrial0 @ ventricular0)) []))
               \<lparr>sh_buf := []\<rparr>,
             [EcgDataUpdate (map UFloat atrial0) (map UFloat ventricular0)])"
proof -
  have l: "length atrial0 = 10" "length ventricular0 = 10"
    by (simp_all add: atrial0_def ventricular0_def)
  have o: "sh_is_open (open_handler (0 # ecg_payload pf0 (atrial0 @ ventricular0)) [])"
    and n: "sh_num_bytes_to_read (open_handler (0 # ecg_payload pf0 (atrial0 @ ventricular0)) [])
            = ECG_NUM_BYTES + 1"
    by (simp_all add: open_handler_def serial_handler_init_def)
  have r: "readline (run_write pf0 (open_handler (0 # ecg_payload pf0 (atrial0 @ ventricular0)) []))
      = (Line (0 # ecg_payload pf0 (atrial0 @ ventricular0)),
         (run_write pf0 (open_handler (0 # ecg_payload pf0 (atrial0 @ ventricular0)) []))
            \<lparr>sh_buf := []\<rparr>)"
    by (rule open_handler_readline) (simp add: ecg_payload_length l)
  from run_iteration_ecg [OF o n r, of True atrial0 ventricular0] l show ?thesis
    by blast
qed

text \<open>
  C9: when the last-sent bytes are still the empty byte string of \<open>__init__\<close>, an
  iteration of the loop whose frame has control byte 1 (and a payload, as every frame of
  more than one byte has) emits the verification event with success false.
\<close>

theorem run_iteration_echo_unsent:
  assumes "sh_is_open s" and "sh_sent_data s = []" and "1 < sh_num_bytes_to_read s"
    and "readline (run_write pf s) = (Line (1 # payload), s')"
  shows "run_iteration pf opens s = Some (s', [ParamsReceived False msg_not_same])"
proof -
  from readline_line [OF assms(4)] assms(3) have "payload \<noteq> []"
    by (auto simp: run_write_keeps)
  moreover from readline_keeps [OF assms(4)] assms(2) have "sh_sent_data s' = []"
    by (simp add: run_write_keeps)
  ultimately have "verify_params s' payload = ParamsReceived False msg_not_same"
    by (simp add: verify_params_def PARAMS_NUM_BYTES_eq)
  with run_iteration_line [OF assms(1,4), of opens] show ?thesis
    by (simp add: run_dispatch_def)
qed

theorem run_iteration_echo_unsent_witness:
  "run_iteration pf0 True (open_handler (1 # replicate 80 0) [])
     = Some ((run_write pf0 (open_handler (1 # replicate 80 0) []))\<lparr>sh_buf := []\<rparr>,
             [ParamsReceived False msg_not_same])"
proof -
  have o: "sh_is_open (open_handler (1 # replicate 80 0) [])"
    and e: "sh_sent_data (open_handler (1 # replicate 80 0) []) = []"
    and n: "1 < sh_num_bytes_to_read (open_handler (1 # replicate 80 0) [])"
    by (simp_all add: open_handler_def serial_handler_init_def ECG_NUM_BYTES_eq)
  have r: "readline (run_write pf0 (open_handler (1 # replicate 80 0) []))
      = (Line (1 # replicate 80 0),
         (run_write pf0 (open_handler (1 # replicate 80 0) []))\<lparr>sh_buf := []\<rparr>)"
    by (rule open_handler_readline) simp
  from run_iteration_echo_unsent [OF o e n r] show ?thesis .
qed

text \<open>
  C10: an iteration of the loop whose frame has a control byte other than 0 and 1 emits
  no event and ends in the state in which \<open>_readline\<close> left the handler: reading the
  frame changed nothing but the buffer and the bytes still to come, of which the frame
  is the front; when the buffer held the whole frame, the frame was cut off the buffer
  and nothing else changed.
\<close>

theorem run_iteration_other_control_byte:
  assumes "sh_is_open s" and "readline (run_write pf s) = (Line (cb # payload), s')"
    and "cb \<noteq> 0" and "cb \<noteq> 1"
  shows "run_iteration pf opens s = Some (s', [])
       \<and> s' = (run_write pf s)\<lparr>sh_buf := sh_buf s', sh_incoming := sh_incoming s'\<rparr>
       \<and> (cb # payload) @ sh_buf s' @ concat (sh_incoming s')
           = sh_buf s @ concat (sh_incoming s)
       \<and> (sh_num_bytes_to_read s \<le> length (sh_buf s)
          \<longrightarrow> sh_buf s' = drop (sh_num_bytes_to_read s) (sh_buf s)
              \<and> sh_incoming s' = sh_incoming s)"
proof -
  have a: "run_iteration pf opens s = Some (s', [])"
    using run_iteration_line [OF assms(1,2), of opens] assms(3,4)
    by (simp add: run_dispatch_def)
  have b: "(cb # payload) @ sh_buf s' @ concat (sh_incoming s') = sh_buf s @ concat (sh_incoming s)"
    using readline_line [OF assms(2)] by (simp add: stream_def run_write_keeps)
  have c: "sh_buf s' = drop (sh_num_bytes_to_read s) (sh_buf s) \<and> sh_incoming s' = sh_incoming s"
    if "sh_num_bytes_to_read s \<le> length (sh_buf s)"
    using that assms(2) by (auto simp: readline_def Let_def run_write_keeps)
  from a b c readline_touches [OF assms(2)] show ?thesis
    by blast
qed

theorem run_iteration_other_control_byte_witness:
  "run_iteration pf0 True (open_handler (7 # replicate 80 0) [])
     = Some ((run_write pf0 (open_handler (7 # replicate 80 0) []))\<lparr>sh_buf := []\<rparr>, [])"
proof -
  have o: "sh_is_open (open_handler (7 # replicate 80 0) [])"
    by (simp add: open_handler_def serial_handler_init_def)
  have r: "readline (run_write pf0 (open_handler (7 # replicate 80 0) []))
      = (Line (7 # replicate 80 0),
         (run_write pf0 (open_handler (7 # replicate 80 0) []))\<lparr>sh_buf := []\<rparr>)"
    by (rule open_handler_readline) simp
  have "(7::byte) \<noteq> 0" "(7::byte) \<noteq> 1" by simp_all
  from run_iteration_other_control_byte [OF o r this, of True] show ?thesis
    by blast
qed

section \<open>The connection state machine\<close>




lemma update_state_not_connected:
  "ch_wanted_state h = NOT_CONNECTED \<Longrightarrow>
   update_state v h comports =
     (case not_connected_branch
             (h\<lparr>ch_devices := filter_devices comports, ch_current_state := NOT_CONNECTED\<rparr>)
             (filter (\<lambda>dev. \<not> py_in dev (ch_old_devices h)) (filter_devices comports)) of
        Inl x \<Rightarrow> Inl x
      | Inr (h3, evs) \<Rightarrow>
          Inr (h3\<lparr>ch_old_devices := ch_devices h3, ch_prev_state := ch_current_state h3\<rparr>, evs))"
  by (cases h) (auto simp: update_state_def Let_def)

lemma update_state_registered:
  "ch_wanted_state h = REGISTERED \<Longrightarrow>
   update_state v h comports =
     (case registered_branch v
             (h\<lparr>ch_devices := filter_devices comports, ch_current_state := REGISTERED\<rparr>)
             (filter (\<lambda>dev. \<not> py_in dev (filter_devices comports)) (ch_old_devices h)) of
        Inl x \<Rightarrow> Inl x
      | Inr (h3, evs) \<Rightarrow>
          Inr (h3\<lparr>ch_old_devices := ch_devices h3, ch_prev_state := ch_current_state h3\<rparr>, evs))"
  by (cases h) (auto simp: update_state_def Let_def)


lemma handle_removed_keeps_current:
  "ch_current_state (state_of (handle_removed_device v h removed)) = ch_current_state h"
  by (cases v)
     (auto simp: handle_removed_device_def state_of_def ListPortInfo_new_def
           split: list.splits device_slot.splits)

lemma handle_removed_returns:
  "ch_device h = Port d \<Longrightarrow>
   v = Pyserial_3_4 \<or> \<not> list_ex (\<lambda>dev. serial_number d = serial_number dev) removed \<Longrightarrow>
   raised (handle_removed_device v h removed) = None"
  by (auto simp: handle_removed_device_def raised_def ListPortInfo_new_def split: list.splits)

lemma registered_branch_current:
  "ch_device h = Port d \<Longrightarrow>
   ch_current_state (state_of (registered_branch v h removed)) = ch_current_state h"
  using handle_removed_keeps_current [of v h removed]
    handle_removed_keeps_current
      [of v "h\<lparr>serial := start_serial_comm (serial h) (device d)\<rparr>" removed]
  by (auto simp: registered_branch_def state_of_def split: sum.splits)

lemma registered_branch_returns:
  "ch_device h = Port d \<Longrightarrow>
   v = Pyserial_3_4 \<or> \<not> list_ex (\<lambda>dev. serial_number d = serial_number dev) removed \<Longrightarrow>
   raised (registered_branch v h removed) = None"
  using handle_removed_returns [of h d v removed]
    handle_removed_returns [of "h\<lparr>serial := start_serial_comm (serial h) (device d)\<rparr>" d v removed]
  by (auto simp: registered_branch_def raised_def split: sum.splits)

lemma update_state_to_registered:
  assumes "ch_wanted_state h = REGISTERED" and "ch_device h = Port d"
  shows "ch_current_state (state_of (update_state v h comports)) = REGISTERED"
    and "v = Pyserial_3_4
         \<or> \<not> list_ex (\<lambda>dev. serial_number d = serial_number dev)
               (filter (\<lambda>dev. \<not> py_in dev (filter_devices comports)) (ch_old_devices h))
         \<Longrightarrow> raised (update_state v h comports) = None"
proof -
  let ?h = "h\<lparr>ch_devices := filter_devices comports, ch_current_state := REGISTERED\<rparr>"
  let ?removed = "filter (\<lambda>dev. \<not> py_in dev (filter_devices comports)) (ch_old_devices h)"
  have d: "ch_device ?h = Port d" using assms(2) by simp
  from registered_branch_current [OF d, of v ?removed]
  show "ch_current_state (state_of (update_state v h comports)) = REGISTERED"
    by (auto simp: update_state_registered [OF assms(1)] state_of_def split: sum.splits)
  assume "v = Pyserial_3_4 \<or> \<not> list_ex (\<lambda>dev. serial_number d = serial_number dev) ?removed"
  from registered_branch_returns [OF d this]
  show "raised (update_state v h comports) = None"
    by (auto simp: update_state_registered [OF assms(1)] raised_def split: sum.splits)
qed

text \<open>
  C4: take a tick that runs in state NOT_CONNECTED (the wanted state is NOT_CONNECTED when
  it starts, so this is the current state once the tick has aligned the two) and whose
  scan has eligible devices that the previous scan had not, \<open>d\<close> the first of them.
  The tick makes \<open>d\<close> the active device; with no first serial number yet it records
  that of \<open>d\<close> and asks for REGISTERED; with the first serial number that of \<open>d\<close> it
  asks for REGISTERED; otherwise it asks for CONNECTED. It emits nothing. When it asked
  for REGISTERED, the next tick, whatever its scan, is in state REGISTERED, with no call
  of \<open>register_device\<close> in between; and it returns normally, unless a device with the
  serial number of \<open>d\<close> has gone away by then and \<open>ListPortInfo()\<close> raises.
\<close>

theorem update_state_adopts_first_added:
  assumes "ch_wanted_state h = NOT_CONNECTED"
    and "filter (\<lambda>dev. \<not> py_in dev (ch_old_devices h)) (filter_devices comports) = d # rest"
  shows "update_state v h comports =
           Inr (h\<lparr>ch_devices := filter_devices comports,
                  ch_current_state := NOT_CONNECTED,
                  ch_device := Port d,
                  ch_first_serial_num :=
                    (if ch_first_serial_num h = Some [] then serial_number d
                     else ch_first_serial_num h),
                  ch_wanted_state :=
                    (if ch_first_serial_num h = Some [] \<or> ch_first_serial_num h = serial_number d
                     then REGISTERED else CONNECTED),
                  ch_old_devices := filter_devices comports,
                  ch_prev_state := NOT_CONNECTED\<rparr>, [])
       \<and> (ch_first_serial_num h = Some [] \<or> ch_first_serial_num h = serial_number d
          \<longrightarrow> (case update_state v h comports of
                 Inl x \<Rightarrow> False
               | Inr (h', evs) \<Rightarrow>
                   ch_current_state (state_of (update_state v h' comports')) = REGISTERED
                   \<and> (v = Pyserial_3_4
                        \<or> \<not> list_ex (\<lambda>dev. serial_number d = serial_number dev)
                              (filter (\<lambda>dev. \<not> py_in dev (filter_devices comports'))
                                 (filter_devices comports))
                      \<longrightarrow> raised (update_state v h' comports') = None)))"
proof -
  have a: "update_state v h comports =
           Inr (h\<lparr>ch_devices := filter_devices comports,
                  ch_current_state := NOT_CONNECTED,
                  ch_device := Port d,
                  ch_first_serial_num :=
                    (if ch_first_serial_num h = Some [] then serial_number d
                     else ch_first_serial_num h),
                  ch_wanted_state :=
                    (if ch_first_serial_num h = Some [] \<or> ch_first_serial_num h = serial_number d
                     then REGISTERED else CONNECTED),
                  ch_old_devices := filter_devices comports,
                  ch_prev_state := NOT_CONNECTED\<rparr>, [])" (is "_ = Inr (?h', [])")
    using assms by (simp add: update_state_not_connected not_connected_branch_def)
  have b: "ch_current_state (state_of (update_state v ?h' comports')) = REGISTERED
      \<and> (v = Pyserial_3_4
           \<or> \<not> list_ex (\<lambda>dev. serial_number d = serial_number dev)
                 (filter (\<lambda>dev. \<not> py_in dev (filter_devices comports'))
                    (filter_devices comports))
         \<longrightarrow> raised (update_state v ?h' comports') = None)"
    if w: "ch_first_serial_num h = Some [] \<or> ch_first_serial_num h = serial_number d"
  proof -
    from w have 1: "ch_wanted_state ?h' = REGISTERED" by auto
    have 2: "ch_device ?h' = Port d" by simp
    have 3: "ch_old_devices ?h' = filter_devices comports" by simp
    from update_state_to_registered [OF 1 2, of v comports'] show ?thesis
      unfolding 3 by blast
  qed
  from a b show ?thesis by simp
qed

theorem update_state_adopts_first_added_witness:
  "ch_wanted_state unplugged1 = NOT_CONNECTED
   \<and> filter (\<lambda>dev. \<not> py_in dev (ch_old_devices unplugged1)) (filter_devices [dev1]) = [dev1]
   \<and> ch_first_serial_num unplugged1 = serial_number dev1
   \<and> update_state Pyserial_3_5 unplugged1 [dev1] =
       Inr (unplugged1\<lparr>ch_devices := [dev1], ch_device := Port dev1,
                       ch_wanted_state := REGISTERED, ch_old_devices := [dev1]\<rparr>, [])"
proof -
  have w: "ch_wanted_state unplugged1 = NOT_CONNECTED"
    and f: "filter (\<lambda>dev. \<not> py_in dev (ch_old_devices unplugged1)) (filter_devices [dev1]) = [dev1]"
    and n: "ch_first_serial_num unplugged1 = serial_number dev1"
    by (simp_all add: unplugged1_def registered1_def connection_handler_init_def
        filter_devices_def dev1_def py_in_def)
  have e: "unplugged1\<lparr>ch_devices := [dev1], ch_current_state := NOT_CONNECTED,
        ch_device := Port dev1, ch_first_serial_num := serial_number dev1,
        ch_wanted_state := REGISTERED, ch_old_devices := [dev1],
        ch_prev_state := NOT_CONNECTED\<rparr>
      = unplugged1\<lparr>ch_devices := [dev1], ch_device := Port dev1,
                    ch_wanted_state := REGISTERED, ch_old_devices := [dev1]\<rparr>"
    by (simp add: unplugged1_def registered1_def connection_handler_init_def)
  have fd: "filter_devices [dev1] = [dev1]"
    by (simp add: filter_devices_def dev1_def)
  have s: "serial_number dev1 \<noteq> Some []"
    by (simp add: dev1_def)
  from update_state_adopts_first_added [OF w f, of Pyserial_3_5 "[]"] n s
  have "update_state Pyserial_3_5 unplugged1 [dev1] =
       Inr (unplugged1\<lparr>ch_devices := [dev1], ch_current_state := NOT_CONNECTED,
        ch_device := Port dev1, ch_first_serial_num := serial_number dev1,
        ch_wanted_state := REGISTERED, ch_old_devices := [dev1],
        ch_prev_state := NOT_CONNECTED\<rparr>, [])"
    by (simp add: fd)
  with w f n show ?thesis
    unfolding e by blast
qed












section \<open>The two calls from the window\<close>

text \<open>
  C6: in every connection state and for every parameter set, \<open>send_data_to_pacemaker\<close>
  does what \<open>send_params_to_pacemaker\<close> of the transport does and nothing else: when the
  parameters encode, the bytes become the last-sent bytes and the pending-write flag is
  set, whatever the state, which is neither read nor changed; when they do not, the
  exception of the encoding comes back.
\<close>

theorem send_data_to_pacemaker_ungated:
  "send_data_to_pacemaker pf (h\<lparr>ch_current_state := st\<rparr>) params =
     (case pack_params pf params of
        Inl e \<Rightarrow> Inl e
      | Inr b \<Rightarrow>
          Inr (h\<lparr>ch_current_state := st,
                 serial := (serial h)\<lparr>sh_sent_data := b, sh_send_params := True\<rparr>\<rparr>))
   \<and> send_data_to_pacemaker pf (h\<lparr>ch_current_state := st\<rparr>) params =
       (case send_params_to_pacemaker pf (serial h) params of
          Inl e \<Rightarrow> Inl e
        | Inr s \<Rightarrow> Inr (h\<lparr>ch_current_state := st, serial := s\<rparr>))"
  by (simp add: send_data_to_pacemaker_def send_params_to_pacemaker_def split: sum.splits)

text \<open>
  C7 says that with no device attached and none ever registered \<open>register_device\<close>
  surfaces the notice to plug in a pacemaker. In a handler as \<open>__init__\<close> leaves it,
  and still after a discovery tick that finds no device, \<open>_device\<close> is the list that
  \<open>comports()\<close> returned, and the call ends with AttributeError at
  \<open>self._device.serial_number\<close>: no notice is surfaced.
\<close>

theorem register_device_fresh_raises:
  "register_device (connection_handler_init []) = Inl AttributeError
   \<and> update_state v (connection_handler_init []) [] =
       Inr (connection_handler_init [], [])
   \<and> ch_devices (connection_handler_init []) = []
   \<and> ch_first_serial_num (connection_handler_init []) = Some []"
  by (simp add: register_device_def connection_handler_init_def update_state_def
      filter_devices_def not_connected_branch_def)

text \<open>
  The rest of the chain of \<open>register_device\<close> is as C7 has it, once \<open>_device\<close> is a
  \<open>ListPortInfo\<close>.
\<close>

lemma register_device_chain:
  "ch_device h = Port d \<Longrightarrow>
   register_device h =
     (if ch_current_state h = CONNECTED then Inr (h\<lparr>ch_wanted_state := REGISTERED\<rparr>, [])
      else if truthy (serial_number d)
      then Inr (h, [ShowAlert ''Already registered this pacemaker!''])
      else if ch_devices h \<noteq> []
      then Inr (h, [ShowAlert ''Please unplug and replug the pacemaker you want to connect to!''])
      else Inr (h, [ShowAlert ''Please plug in a pacemaker!'']))"
  by (simp add: register_device_def)

lemma register_device_connected:
  "ch_current_state h = CONNECTED \<Longrightarrow>
   register_device h = Inr (h\<lparr>ch_wanted_state := REGISTERED\<rparr>, [])"
  by (simp add: register_device_def)

end
